theory Spec2Isabelle
  imports
    Main
    "HOL-Library.Char_ord"
    "HOL-Library.List_Lexorder"
    "HOL-Library.Product_Lexorder"
    "HOL-Library.Multiset"
begin

section \<open>Python values used by app.py\<close>

text \<open>
  A Python \<open>str\<close> is a \<^typ>\<open>string\<close>: a list of code points below 256. Python compares
  strings lexicographically by code point, a proper prefix being smaller; this is the
  order of \<open>List_Lexorder\<close> over \<open>Char_ord\<close>. Tuples compare lexicographically
  (\<open>Product_Lexorder\<close>).

  The exceptions that can leave a function of app.py:
\<close>

datatype error = ValueError | IndexError | KeyError

text \<open>\<open>d.get(k, default)\<close> and \<open>d.setdefault(k, default)\<close> on one key of a dictionary,
  the key's slot being \<open>None\<close> when the key is absent.\<close>

definition dict_get :: "'a option \<Rightarrow> 'a \<Rightarrow> 'a" where
  "dict_get slot dflt = (case slot of None \<Rightarrow> dflt | Some v \<Rightarrow> v)"

definition setdefault :: "'a option \<Rightarrow> 'a \<Rightarrow> 'a option" where
  "setdefault slot dflt = (case slot of None \<Rightarrow> Some dflt | Some v \<Rightarrow> Some v)"

text \<open>\<open>d.get(k) or ""\<close>: an absent key and an empty string both give the alternative.\<close>

definition get_or :: "string option \<Rightarrow> string \<Rightarrow> string" where
  "get_or slot alt = (case slot of None \<Rightarrow> alt | Some v \<Rightarrow> if v = [] then alt else v)"

text \<open>\<open>str.lower()\<close> on code points below 256: the ASCII capitals and the Latin-1
  capitals (192 to 222 but the multiplication sign 215) move up by 32.\<close>

definition lower_char :: "char \<Rightarrow> char" where
  "lower_char c =
     (let n = (of_char c :: nat)
      in if (65 \<le> n \<and> n \<le> 90) \<or> (192 \<le> n \<and> n \<le> 222 \<and> n \<noteq> 215)
         then char_of (n + 32) else c)"

definition lower :: "string \<Rightarrow> string" where
  "lower s = map lower_char s"

text \<open>\<open>str.strip()\<close>: the white space of \<open>str.isspace\<close> below 256.\<close>

definition is_space :: "char \<Rightarrow> bool" where
  "is_space c =
     (let n = (of_char c :: nat)
      in (9 \<le> n \<and> n \<le> 13) \<or> (28 \<le> n \<and> n \<le> 32) \<or> n = 133 \<or> n = 160)"

definition strip :: "string \<Rightarrow> string" where
  "strip s = rev (dropWhile is_space (rev (dropWhile is_space s)))"






text \<open>\<open>sorted(xs, key=f)\<close> is a stable ascending sort, \<^const>\<open>sort_key\<close>. With
  \<open>reverse=True\<close> the list is reversed, sorted and reversed again, so that the result
  descends and entries with equal keys keep their order.\<close>

definition sorted_reverse :: "('a \<Rightarrow> 'k::linorder) \<Rightarrow> 'a list \<Rightarrow> 'a list" where
  "sorted_reverse f xs = rev (sort_key f (rev xs))"

text \<open>\<open>max(xs)\<close>: the first item is the candidate, a later item replaces it when
  greater; \<open>ValueError\<close> on an empty list.\<close>

fun py_max :: "int list \<Rightarrow> error + int" where
  "py_max [] = Inl ValueError"
| "py_max (x # xs) = Inr (foldl (\<lambda>m y. if m < y then y else m) x xs)"


section \<open>The data model\<close>

text \<open>
  An entry is a JSON object, a Python \<open>dict\<close>, with the fourteen keys below. A key may
  be absent (\<open>None\<close>); a key that is present holds a value of the type the application
  itself writes: an integer \<open>id\<close>, strings, a list of strings for \<open>tags\<close>, and for
  \<open>dream_progress\<close> either an integer (load and the reflection form write 0) or the
  string a form field held. The keys \<open>id\<close> and \<open>notes\<close> are the fields \<open>id_field\<close>
  and \<open>notes_field\<close>. Values of other JSON types in these keys, and keys beyond the
  fourteen, are outside the model.
\<close>

datatype progress = IntVal int | StrVal string

record entry =
  id_field :: "int option"
  title :: "string option"
  date :: "string option"
  mood :: "string option"
  category :: "string option"
  subcategory :: "string option"
  image_path :: "string option"
  notes_field :: "string option"
  tags :: "string list option"
  created_at :: "string option"
  dream_theme :: "string option"
  dream_priority :: "string option"
  dream_target_date :: "string option"
  dream_progress :: "progress option"

text \<open>The object with no key, \<open>{}\<close>.\<close>

definition blank :: entry where
  "blank = \<lparr>id_field = None, title = None, date = None, mood = None, category = None,
     subcategory = None, image_path = None, notes_field = None, tags = None,
     created_at = None, dream_theme = None, dream_priority = None,
     dream_target_date = None, dream_progress = None\<rparr>"

text \<open>
  The data file \<open>entries.json\<close>: absent, present with content on which \<open>json.load\<close>
  raises \<open>JSONDecodeError\<close>, or present with a list of entries, which is what
  \<open>save_entries\<close> writes. Content that parses to anything else is outside the model.
\<close>

datatype store = Absent | Garbled | Stored "entry list"


section \<open>Record store\<close>

text \<open>The body of the loop of \<open>load_entries\<close>: seven \<open>setdefault\<close> calls.\<close>

definition backfill :: "entry \<Rightarrow> entry" where
  "backfill e = e\<lparr>
     category := setdefault (category e) ''Art'',
     subcategory := setdefault (subcategory e) '''',
     tags := setdefault (tags e) [],
     dream_theme := setdefault (dream_theme e) '''',
     dream_priority := setdefault (dream_priority e) '''',
     dream_target_date := setdefault (dream_target_date e) '''',
     dream_progress := setdefault (dream_progress e) (IntVal 0)\<rparr>"

definition load_entries :: "store \<Rightarrow> entry list" where
  "load_entries s =
     (case s of
        Absent \<Rightarrow> []
      | Garbled \<Rightarrow> []
      | Stored entries \<Rightarrow> map backfill entries)"

definition save_entries :: "entry list \<Rightarrow> store" where
  "save_entries entries = Stored entries"


section \<open>Id allocator\<close>

definition next_id :: "entry list \<Rightarrow> error + int" where
  "next_id entries =
     (if entries = [] then Inr 1
      else (let existing_ids = map (\<lambda>e. dict_get (id_field e) 0) entries
            in case py_max existing_ids of
                 Inl err \<Rightarrow> Inl err
               | Inr m \<Rightarrow> Inr (m + 1)))"


section \<open>Derivation engine\<close>

subsection \<open>Dream selection\<close>

text \<open>
  \<open>compute_dream_entries\<close>: the loop appends an entry to \<open>result\<close> when its lowercased
  category is one of four names, else when the keyword set meets its lowercased tags;
  the result is sorted by date, newest first.
\<close>

definition dream_keywords :: "string list" where
  "dream_keywords =
     [''dream'', ''dreams'', ''goal'', ''goals'', ''manifest'', ''manifestation'']"

definition dream_step :: "entry list \<Rightarrow> entry \<Rightarrow> entry list" where
  "dream_step result e =
     (let cat = lower (get_or (category e) '''');
          tgs = map lower (dict_get (tags e) [])
      in if cat \<in> set [''goal'', ''goals'', ''dreams'', ''dreamboard''] then result @ [e]
         else if set dream_keywords \<inter> set tgs \<noteq> {} then result @ [e]
         else result)"

definition compute_dream_entries :: "entry list \<Rightarrow> entry list" where
  "compute_dream_entries entries =
     sorted_reverse (\<lambda>e. dict_get (date e) '''') (foldl dream_step [] entries)"

text \<open>
  The \<open>dreamboard\<close> view has a keyword set and a selection loop of its own (step 1),
  then fills the dream fields of the selected entries (step 2), applies the optional
  theme and priority filters (steps 3 to 5) and sorts by target date, then date
  (step 6). The model returns the \<open>entries\<close> handed to the template.
\<close>

definition dreamboard_keywords :: "string list" where
  "dreamboard_keywords = [''dream'', ''goal'', ''goals'', ''manifest'', ''manifestation'']"

definition dreamboard_step :: "entry list \<Rightarrow> entry \<Rightarrow> entry list" where
  "dreamboard_step dream_entries e =
     (let cat = lower (get_or (category e) '''');
          tgs = map lower (dict_get (tags e) [])
      in if cat \<in> set [''goal'', ''goals''] \<or> set dreamboard_keywords \<inter> set tgs \<noteq> {}
         then dream_entries @ [e]
         else dream_entries)"

definition dreamboard_select :: "entry list \<Rightarrow> entry list" where
  "dreamboard_select entries = foldl dreamboard_step [] entries"

definition dream_defaults :: "entry \<Rightarrow> entry" where
  "dream_defaults e = e\<lparr>
     dream_theme := setdefault (dream_theme e) (dict_get (category e) ''''),
     dream_priority := setdefault (dream_priority e) '''',
     dream_target_date := setdefault (dream_target_date e) '''',
     dream_progress := setdefault (dream_progress e) (IntVal 0)\<rparr>"

text \<open>\<open>request.args.get(k) or None\<close>: a missing and an empty parameter are no filter.\<close>

definition arg_or_none :: "string option \<Rightarrow> string option" where
  "arg_or_none a = (case a of None \<Rightarrow> None | Some v \<Rightarrow> if v = [] then None else Some v)"

definition dream_sort_key :: "entry \<Rightarrow> string \<times> string" where
  "dream_sort_key e = (get_or (dream_target_date e) '''', get_or (date e) '''')"

definition dreamboard :: "string option \<Rightarrow> string option \<Rightarrow> store \<Rightarrow> entry list" where
  "dreamboard theme priority s =
     (let entries = load_entries s;
          dream_entries = map dream_defaults (dreamboard_select entries);
          current_theme = arg_or_none theme;
          current_priority = arg_or_none priority;
          dream_entries =
            (case current_theme of
               None \<Rightarrow> dream_entries
             | Some t \<Rightarrow>
                 filter (\<lambda>e. lower (get_or (dream_theme e) '''') = lower t) dream_entries);
          dream_entries =
            (case current_priority of
               None \<Rightarrow> dream_entries
             | Some p \<Rightarrow>
                 filter (\<lambda>e. lower (get_or (dream_priority e) '''') = lower p) dream_entries)
      in sort_key dream_sort_key dream_entries)"


subsection \<open>Milestones\<close>







subsection \<open>Timeline\<close>














section \<open>Request handlers\<close>

text \<open>
  A request carries its method, the submitted form (\<open>request.form\<close>, a key bound more
  than once reading as its first value) and the file name under \<open>image_file\<close> of
  \<open>request.files\<close>, if any. The collaborators are parameters: werkzeug's
  \<open>secure_filename\<close>, today's date as \<open>%Y-%m-%d\<close> and the current UTC time in ISO format.
\<close>

datatype http_method = GET | POST

record request =
  req_method :: http_method
  req_form :: "(string \<times> string) list"
  req_image_file :: "string option"

record env =
  env_secure_filename :: "string \<Rightarrow> string"
  env_today :: string
  env_utcnow :: string

text \<open>
  What a handler answers: a rendered template (with the entry it shows, if one), a
  redirect to an endpoint, the 404 of a missing entry, the 400 that Flask makes of
  \<open>request.form[k]\<close> on a missing key, or the 500 of an exception nobody caught.
\<close>

datatype response =
    Rendered string "entry option"
  | Redirect string
  | NotFound
  | BadRequest
  | ServerError error

definition form_get :: "request \<Rightarrow> string \<Rightarrow> string option" where
  "form_get r k = map_of (req_form r) k"

text \<open>\<open>allowed_file\<close>: a dot in the name and the text after the last dot, lowercased,
  among the allowed extensions.\<close>

definition ALLOWED_EXTENSIONS :: "string list" where
  "ALLOWED_EXTENSIONS = [''png'', ''jpg'', ''jpeg'', ''gif'']"

definition allowed_file :: "string \<Rightarrow> bool" where
  "allowed_file filename =
     (CHR ''.'' \<in> set filename \<and>
      lower (rev (takeWhile (\<lambda>c. c \<noteq> CHR ''.'') (rev filename))) \<in> set ALLOWED_EXTENSIONS)"

text \<open>\<open>os.path.join(a, b)\<close> for a relative directory \<open>a\<close> without a trailing slash.\<close>

definition path_join :: "string \<Rightarrow> string \<Rightarrow> string" where
  "path_join a b = (if b \<noteq> [] \<and> hd b = CHR ''/'' then b else a @ ''/'' @ b)"

text \<open>The upload block shared by \<open>new_entry\<close> and \<open>edit_entry\<close>: the image path that
  results, \<open>current\<close> when no acceptable file came.\<close>

definition uploaded_image :: "env \<Rightarrow> request \<Rightarrow> string \<Rightarrow> string" where
  "uploaded_image ev r current =
     (case req_image_file r of
        None \<Rightarrow> current
      | Some filename \<Rightarrow>
          if filename \<noteq> [] \<and> allowed_file filename
          then path_join ''uploads'' (env_secure_filename ev filename)
          else current)"

text \<open>\<open>str.split(",")\<close> and the tag list \<open>[t.strip() for t in raw.split(",") if t.strip()]\<close>.\<close>

fun split_on :: "char \<Rightarrow> string \<Rightarrow> string list" where
  "split_on c [] = [[]]"
| "split_on c (x # xs) =
     (if x = c then [] # split_on c xs
      else (case split_on c xs of
              [] \<Rightarrow> [[x]]
            | p # ps \<Rightarrow> (x # p) # ps))"

definition parse_tags :: "string \<Rightarrow> string list" where
  "parse_tags raw_tags =
     map strip (filter (\<lambda>t. strip t \<noteq> []) (split_on (CHR '','') raw_tags))"

text \<open>\<open>next((e for e in entries if e.get("id") == entry_id), None)\<close> is
  \<^const>\<open>find\<close>; the entry it yields is an element of \<open>entries\<close>, and \<open>entry.update\<close>
  changes that element in place: the first one with the id. An entry that was found
  has the key \<open>id\<close>, so \<open>not entry\<close> holds of \<open>None\<close> only.\<close>

fun update_first :: "('a \<Rightarrow> bool) \<Rightarrow> ('a \<Rightarrow> 'a) \<Rightarrow> 'a list \<Rightarrow> 'a list" where
  "update_first P f [] = []"
| "update_first P f (x # xs) = (if P x then f x # xs else x # update_first P f xs)"


text \<open>The three \<open>setdefault\<close> calls of \<open>edit_entry\<close> and its \<open>entry.update\<close>, given
  the submitted title.\<close>

definition edit_defaults :: "entry \<Rightarrow> entry" where
  "edit_defaults entry = entry\<lparr>
     category := setdefault (category entry) ''Art'',
     subcategory := setdefault (subcategory entry) '''',
     tags := setdefault (tags entry) []\<rparr>"

definition edit_update :: "env \<Rightarrow> request \<Rightarrow> string \<Rightarrow> entry \<Rightarrow> entry" where
  "edit_update ev r new_title entry =
     (let image = uploaded_image ev r (dict_get (image_path entry) '''');
          raw_tags = dict_get (form_get r ''tags'') '''';
          tgs = parse_tags raw_tags
      in entry\<lparr>
           title := Some new_title,
           date := Some (get_or (form_get r ''date'') (dict_get (date entry) '''')),
           mood := Some (dict_get (form_get r ''mood'') ''''),
           category := Some (dict_get (form_get r ''category'') ''Art''),
           subcategory := Some (dict_get (form_get r ''subcategory'') ''''),
           image_path := Some image,
           notes_field := Some (dict_get (form_get r ''notes'') ''''),
           tags := Some tgs,
           dream_priority := Some (strip (dict_get (form_get r ''dream_priority'') '''')),
           dream_progress :=
             Some (StrVal (strip (dict_get (form_get r ''dream_progress'') ''''))),
           dream_target_date :=
             Some (strip (dict_get (form_get r ''dream_target_date'') '''')),
           dream_theme := Some (strip (dict_get (form_get r ''dream_theme'') ''''))\<rparr>)"

definition edit_entry :: "env \<Rightarrow> int \<Rightarrow> request \<Rightarrow> store \<Rightarrow> response \<times> store" where
  "edit_entry ev entry_id r s =
     (let entries = load_entries s
      in case find (\<lambda>e. id_field e = Some entry_id) entries of
           None \<Rightarrow> (NotFound, s)
         | Some entry \<Rightarrow>
             if req_method r = POST then
               (case form_get r ''title'' of
                  None \<Rightarrow> (BadRequest, s)
                | Some new_title \<Rightarrow>
                    (Redirect ''entry_detail'',
                     save_entries
                       (update_first (\<lambda>e. id_field e = Some entry_id)
                          (\<lambda>e. edit_update ev r new_title (edit_defaults e)) entries)))
             else (Rendered ''edit.html'' (Some (edit_defaults entry)), s))"


definition new_entry :: "env \<Rightarrow> request \<Rightarrow> store \<Rightarrow> response \<times> store" where
  "new_entry ev r s =
     (let entries = load_entries s
      in if req_method r = POST then
           (let image = uploaded_image ev r ''''
            in case next_id entries of
                 Inl err \<Rightarrow> (ServerError err, s)
               | Inr entry_id \<Rightarrow>
                   (let raw_tags = dict_get (form_get r ''tags'') '''';
                        tgs = parse_tags raw_tags
                    in case form_get r ''title'' of
                         None \<Rightarrow> (BadRequest, s)
                       | Some new_title \<Rightarrow>
                           (let entry = \<lparr>
                                  id_field = Some entry_id,
                                  title = Some new_title,
                                  date = Some (get_or (form_get r ''date'') (env_today ev)),
                                  mood = Some (dict_get (form_get r ''mood'') ''''),
                                  category = Some (dict_get (form_get r ''category'') ''Art''),
                                  subcategory =
                                    Some (dict_get (form_get r ''subcategory'') ''''),
                                  image_path = Some image,
                                  notes_field = Some (dict_get (form_get r ''notes'') ''''),
                                  tags = Some tgs,
                                  created_at = Some (env_utcnow ev),
                                  dream_theme =
                                    Some (strip (dict_get (form_get r ''dream_theme'') '''')),
                                  dream_priority =
                                    Some (strip (dict_get (form_get r ''dream_priority'') '''')),
                                  dream_target_date =
                                    Some (strip
                                      (dict_get (form_get r ''dream_target_date'') '''')),
                                  dream_progress =
                                    Some (StrVal (strip
                                      (dict_get (form_get r ''dream_progress'') '''')))\<rparr>
                            in (Redirect ''index'', save_entries (entries @ [entry])))))
         else (Rendered ''new.html'' None, s))"

section \<open>Notions of the specification and examples\<close>

text \<open>
  The definitions of this section follow the words of the specification, name the
  example inputs, or abbreviate an expression of the code for the proofs; the
  properties below compare them with the code.

  ``All fields of the Entry data model present'': each of the fourteen keys.
\<close>

definition all_fields_present :: "entry \<Rightarrow> bool" where
  "all_fields_present e =
     (id_field e \<noteq> None \<and> title e \<noteq> None \<and> date e \<noteq> None \<and> mood e \<noteq> None \<and>
      category e \<noteq> None \<and> subcategory e \<noteq> None \<and> image_path e \<noteq> None \<and>
      notes_field e \<noteq> None \<and> tags e \<noteq> None \<and> created_at e \<noteq> None \<and>
      dream_theme e \<noteq> None \<and> dream_priority e \<noteq> None \<and>
      dream_target_date e \<noteq> None \<and> dream_progress e \<noteq> None)"

text \<open>A legacy record: written before mood, notes, category and the dream fields existed.\<close>

definition legacy_entry :: entry where
  "legacy_entry =
     blank\<lparr>id_field := Some 1, title := Some ''First'', date := Some ''2020-01-01''\<rparr>"

text \<open>The ids that are present in a collection, in order; ``pairwise-distinct ids''
  means that this list is \<^const>\<open>distinct\<close>.\<close>

definition present_ids :: "entry list \<Rightarrow> int list" where
  "present_ids entries = List.map_filter id_field entries"

text \<open>Example collections and an example submission.\<close>

definition id3_id7 :: "entry list" where
  "id3_id7 = [blank\<lparr>id_field := Some 3\<rparr>, blank\<lparr>id_field := Some 7\<rparr>]"

definition no_id_twice :: "entry list" where
  "no_id_twice = [blank, blank\<lparr>title := Some ''untitled''\<rparr>]"

definition example_env :: env where
  "example_env =
     \<lparr>env_secure_filename = (\<lambda>name. name), env_today = ''2024-05-01'',
      env_utcnow = ''2024-05-01T10:00:00''\<rparr>"

definition post_titled :: request where
  "post_titled = \<lparr>req_method = POST, req_form = [(''title'', ''Sea'')], req_image_file = None\<rparr>"

text \<open>The category and the tags as both selection loops read them.\<close>

definition lower_category :: "entry \<Rightarrow> string" where
  "lower_category e = lower (get_or (category e) '''')"

definition lower_tags :: "entry \<Rightarrow> string list" where
  "lower_tags e = map lower (dict_get (tags e) [])"

text \<open>The rule claim C1 gives for the dreamboard view: the narrow category test, or
  a tag among the six keywords.\<close>

definition claimed_dreamboard_rule :: "entry \<Rightarrow> bool" where
  "claimed_dreamboard_rule e =
     (lower_category e \<in> set [''goal'', ''goals''] \<or>
      set [''dream'', ''dreams'', ''goal'', ''goals'', ''manifest'', ''manifestation'']
        \<inter> set (lower_tags e) \<noteq> {})"

text \<open>Example entries for the two views.\<close>

definition plural_tag_entry :: entry where
  "plural_tag_entry = blank\<lparr>id_field := Some 5, category := Some ''Art'', tags := Some [''Dreams'']\<rparr>"

definition dreams_category_entry :: entry where
  "dreams_category_entry = blank\<lparr>id_field := Some 6, category := Some ''Dreams'', tags := Some [''sea'']\<rparr>"


















section \<open>Verified properties\<close>

subsection \<open>Loading and saving\<close>

lemma setdefault_idem: "setdefault (setdefault v d) d' = setdefault v d"
  by (simp add: setdefault_def split: option.splits)

lemma setdefault_value: "setdefault v d = Some (dict_get v d)"
  by (simp add: setdefault_def dict_get_def split: option.splits)

lemma backfill_idem: "backfill (backfill e) = backfill e"
  by (simp add: backfill_def setdefault_idem)



text \<open>
  Claim C6. Loading, saving what was loaded and loading again gives what the first
  load gave; the defaulting of one entry is idempotent.
\<close>

theorem C6_load_save_load:
  "load_entries (save_entries (load_entries s)) = load_entries s \<and>
   backfill (backfill e) = backfill e"
  by (cases s) (simp_all add: load_entries_def save_entries_def backfill_idem)

text \<open>
  Claim C2, as stated, fails: load fills seven keys only. A legacy record without
  \<open>mood\<close> comes back without \<open>mood\<close>, so not every field of the data model is present.
\<close>

theorem C2_counterexample:
  "\<not> list_all all_fields_present (load_entries (Stored [legacy_entry])) \<and>
   map mood (load_entries (Stored [legacy_entry])) = [None]"
  by (simp add: load_entries_def backfill_def legacy_entry_def blank_def
      all_fields_present_def)

text \<open>
  Claim C2, amended. Every entry returned by load has the seven keys \<open>category\<close>,
  \<open>subcategory\<close>, \<open>tags\<close>, \<open>dream_theme\<close>, \<open>dream_priority\<close>, \<open>dream_target_date\<close>
  and \<open>dream_progress\<close>: a stored value is kept, a missing one is the default
  (\<open>"Art"\<close>, \<open>""\<close>, \<open>[]\<close>, \<open>""\<close>, \<open>""\<close>, \<open>""\<close>, \<open>0\<close>). The keys \<open>id\<close>, \<open>title\<close>,
  \<open>date\<close>, \<open>mood\<close>, \<open>image_path\<close>, \<open>notes\<close> and \<open>created_at\<close> come back as stored, a
  missing one still missing.
\<close>

theorem C2_load_backfills_seven_fields:
  "(\<forall>e \<in> set (load_entries s).
      category e \<noteq> None \<and> subcategory e \<noteq> None \<and> tags e \<noteq> None \<and>
      dream_theme e \<noteq> None \<and> dream_priority e \<noteq> None \<and>
      dream_target_date e \<noteq> None \<and> dream_progress e \<noteq> None) \<and>
   length (load_entries (Stored es)) = length es \<and>
   (\<forall>i < length es.
      category (load_entries (Stored es) ! i) = Some (dict_get (category (es ! i)) ''Art'') \<and>
      subcategory (load_entries (Stored es) ! i) = Some (dict_get (subcategory (es ! i)) '''') \<and>
      tags (load_entries (Stored es) ! i) = Some (dict_get (tags (es ! i)) []) \<and>
      dream_theme (load_entries (Stored es) ! i) = Some (dict_get (dream_theme (es ! i)) '''') \<and>
      dream_priority (load_entries (Stored es) ! i) =
        Some (dict_get (dream_priority (es ! i)) '''') \<and>
      dream_target_date (load_entries (Stored es) ! i) =
        Some (dict_get (dream_target_date (es ! i)) '''') \<and>
      dream_progress (load_entries (Stored es) ! i) =
        Some (dict_get (dream_progress (es ! i)) (IntVal 0)) \<and>
      id_field (load_entries (Stored es) ! i) = id_field (es ! i) \<and>
      title (load_entries (Stored es) ! i) = title (es ! i) \<and>
      date (load_entries (Stored es) ! i) = date (es ! i) \<and>
      mood (load_entries (Stored es) ! i) = mood (es ! i) \<and>
      image_path (load_entries (Stored es) ! i) = image_path (es ! i) \<and>
      notes_field (load_entries (Stored es) ! i) = notes_field (es ! i) \<and>
      created_at (load_entries (Stored es) ! i) = created_at (es ! i))"
proof -
  have "\<forall>e \<in> set (load_entries s).
      category e \<noteq> None \<and> subcategory e \<noteq> None \<and> tags e \<noteq> None \<and>
      dream_theme e \<noteq> None \<and> dream_priority e \<noteq> None \<and>
      dream_target_date e \<noteq> None \<and> dream_progress e \<noteq> None"
    by (cases s) (auto simp: load_entries_def backfill_def setdefault_value)
  then show ?thesis
    by (simp add: load_entries_def backfill_def setdefault_value)
qed

theorem C2_witness:
  "(0::nat) < length [legacy_entry] \<and>
   category (load_entries (Stored [legacy_entry]) ! 0) = Some ''Art'' \<and>
   dream_progress (load_entries (Stored [legacy_entry]) ! 0) = Some (IntVal 0) \<and>
   title (load_entries (Stored [legacy_entry]) ! 0) = Some ''First'' \<and>
   mood (load_entries (Stored [legacy_entry]) ! 0) = None \<and>
   load_entries (Stored [legacy_entry]) \<noteq> [] \<and>
   list_all (\<lambda>e. tags e \<noteq> None \<and> dream_theme e \<noteq> None) (load_entries (Stored [legacy_entry]))"
proof -
  note t = C2_load_backfills_seven_fields [of "Stored [legacy_entry]" "[legacy_entry]"]
  from t have a: "(0::nat) < length [legacy_entry] \<and>
   category (load_entries (Stored [legacy_entry]) ! 0) = Some ''Art'' \<and>
   dream_progress (load_entries (Stored [legacy_entry]) ! 0) = Some (IntVal 0) \<and>
   title (load_entries (Stored [legacy_entry]) ! 0) = Some ''First'' \<and>
   mood (load_entries (Stored [legacy_entry]) ! 0) = None"
    by (simp add: legacy_entry_def blank_def dict_get_def)
  from t have b: "\<forall>e \<in> set (load_entries (Stored [legacy_entry])).
      tags e \<noteq> None \<and> dream_theme e \<noteq> None"
    by blast
  from t have c: "load_entries (Stored [legacy_entry]) \<noteq> []"
    by (metis length_0_conv list.distinct(1))
  from a b c show ?thesis by (simp add: list_all_iff)
qed

subsection \<open>The id allocator\<close>

lemma py_max_Max: "xs \<noteq> [] \<Longrightarrow> py_max xs = Inr (Max (set xs))"
proof (cases xs)
  case Nil
  assume "xs \<noteq> []" with Nil show ?thesis by simp
next
  case (Cons x r)
  have "foldl (\<lambda>m y. if m < y then y else m) a r = Max (set (a # r))" for a :: int
  proof (induction r arbitrary: a)
    case Nil
    show ?case by simp
  next
    case (Cons b r)
    have "Max (set (a # b # r)) = Max (set ((if a < b then b else a) # r))"
      by (cases r) (auto simp: max_def)
    with Cons show ?case by simp
  qed
  with Cons show ?thesis by simp
qed

lemma next_id_nonempty:
  "es \<noteq> [] \<Longrightarrow> next_id es = Inr (Max (set (map (\<lambda>e. dict_get (id_field e) 0) es)) + 1)"
  by (simp add: next_id_def py_max_Max)

lemma ids_all_present:
  "\<forall>e \<in> set es. id_field e \<noteq> None \<Longrightarrow> map (\<lambda>e. dict_get (id_field e) 0) es = present_ids es"
  by (induction es) (auto simp: present_ids_def map_filter_simps dict_get_def)

text \<open>
  Claim C4. \<open>next_id\<close> returns 1 on the empty list; on any other list it returns the
  maximum of the ids plus 1, an entry without \<open>id\<close> counting as 0, so that where
  every entry has an id it is the maximum of the existing ids plus 1. On the list
  with ids 3 and 7 it returns 8. It never raises.
\<close>

theorem C4_next_id:
  "next_id [] = Inr 1 \<and>
   (es \<noteq> [] \<longrightarrow>
      next_id es = Inr (Max (set (map (\<lambda>e. dict_get (id_field e) 0) es)) + 1)) \<and>
   (es \<noteq> [] \<and> (\<forall>e \<in> set es. id_field e \<noteq> None) \<longrightarrow>
      next_id es = Inr (Max (set (present_ids es)) + 1)) \<and>
   next_id id3_id7 = Inr 8"
proof (intro conjI impI)
  show "next_id [] = Inr 1" by (simp add: next_id_def)
next
  assume "es \<noteq> []"
  then show "next_id es = Inr (Max (set (map (\<lambda>e. dict_get (id_field e) 0) es)) + 1)"
    by (rule next_id_nonempty)
next
  assume a: "es \<noteq> [] \<and> (\<forall>e \<in> set es. id_field e \<noteq> None)"
  then have "next_id es = Inr (Max (set (map (\<lambda>e. dict_get (id_field e) 0) es)) + 1)"
    using next_id_nonempty by blast
  moreover have "map (\<lambda>e. dict_get (id_field e) 0) es = present_ids es"
    using a ids_all_present by blast
  ultimately show "next_id es = Inr (Max (set (present_ids es)) + 1)"
    by (simp only:)
next
  show "next_id id3_id7 = Inr 8"
    by (simp add: next_id_def id3_id7_def blank_def dict_get_def)
qed

theorem C4_witness:
  "id3_id7 \<noteq> [] \<and> next_id id3_id7 = Inr (Max (set (present_ids id3_id7)) + 1) \<and>
   Max (set (present_ids id3_id7)) = 7"
  using C4_next_id [of id3_id7]
  by (simp add: id3_id7_def blank_def present_ids_def map_filter_simps dict_get_def)

lemma present_ids_append: "present_ids (xs @ ys) = present_ids xs @ present_ids ys"
  by (induction xs) (auto simp: present_ids_def map_filter_simps split: option.splits)

lemma present_ids_single: "present_ids [e] = (case id_field e of None \<Rightarrow> [] | Some i \<Rightarrow> [i])"
  by (simp add: present_ids_def map_filter_simps split: option.splits)

lemma present_ids_backfill: "present_ids (map backfill es) = present_ids es"
  by (induction es) (auto simp: present_ids_def map_filter_simps backfill_def split: option.splits)

lemma present_ids_load: "present_ids (load_entries (Stored es)) = present_ids es"
  by (simp add: load_entries_def present_ids_backfill)

lemma present_id_in_defaults:
  "i \<in> set (present_ids es) \<Longrightarrow> i \<in> set (map (\<lambda>e. dict_get (id_field e) 0) es)"
  by (induction es) (auto simp: present_ids_def map_filter_simps dict_get_def split: option.splits)

lemma next_id_total: "\<exists>n. next_id es = Inr n"
  by (cases "es = []") (simp_all add: next_id_def py_max_Max)

lemma next_id_above:
  assumes "next_id es = Inr n" and "i \<in> set (present_ids es)"
  shows "i < n"
proof -
  from assms(2) have ne: "es \<noteq> []" by (auto simp: present_ids_def map_filter_simps)
  let ?ids = "map (\<lambda>e. dict_get (id_field e) 0) es"
  from ne assms(1) have n: "n = Max (set ?ids) + 1"
    by (simp add: next_id_nonempty)
  from assms(2) have "i \<in> set ?ids" by (rule present_id_in_defaults)
  then have "i \<le> Max (set ?ids)" by (intro Max_ge) simp_all
  with n show ?thesis by simp
qed

lemma next_id_keeps_distinct:
  assumes "next_id es = Inr n" and "distinct (present_ids es)" and "id_field e = Some n"
  shows "distinct (present_ids (es @ [e]))"
proof -
  have "n \<notin> set (present_ids es)"
    using next_id_above [OF assms(1)] by auto
  with assms(2,3) show ?thesis
    by (simp add: present_ids_append present_ids_single)
qed

lemma next_id_missing_as_zero:
  "next_id (map (\<lambda>e. if id_field e = None then e\<lparr>id_field := Some 0\<rparr> else e) es) = next_id es"
proof -
  have ids_eq: "map (\<lambda>e. dict_get (id_field e) 0)
          (map (\<lambda>e. if id_field e = None then e\<lparr>id_field := Some 0\<rparr> else e) es)
        = map (\<lambda>e. dict_get (id_field e) 0) es"
    by (induction es) (auto simp: dict_get_def)
  show ?thesis by (simp only: next_id_def Let_def ids_eq map_is_Nil_conv)
qed

lemma next_id_no_ids:
  assumes "es \<noteq> []" and "\<forall>e \<in> set es. id_field e = None"
  shows "next_id es = Inr 1"
proof -
  from assms(2) have "map (\<lambda>e. dict_get (id_field e) 0) es = replicate (length es) 0"
    by (induction es) (auto simp: dict_get_def)
  with assms(1) have "Max (set (map (\<lambda>e. dict_get (id_field e) 0) es)) = 0"
    by (simp only: set_replicate) auto
  moreover from assms(1)
  have "next_id es = Inr (Max (set (map (\<lambda>e. dict_get (id_field e) 0) es)) + 1)"
    by (rule next_id_nonempty)
  ultimately show ?thesis by (simp only:) simp
qed

lemma new_entry_post:
  assumes "req_method r = POST" and "form_get r ''title'' = Some t"
  shows "\<exists>e n. new_entry ev r s = (Redirect ''index'', Stored (load_entries s @ [e])) \<and>
            id_field e = Some n \<and> next_id (load_entries s) = Inr n \<and> title e = Some t \<and>
            created_at e = Some (env_utcnow ev)"
proof -
  obtain n where n: "next_id (load_entries s) = Inr n"
    using next_id_total by blast
  show ?thesis
    using assms n by (simp add: new_entry_def Let_def save_entries_def)
qed

text \<open>
  Claim C10. \<open>next_id\<close> returns a value above every id present in the list, and it
  reads an entry without \<open>id\<close> as one with id 0: giving such entries the id 0
  changes nothing. On a non-empty list without any id it returns 1. Appending an
  entry that carries the new id keeps the present ids pairwise distinct, and this is
  what a submission to \<open>new_entry\<close> does.
\<close>

theorem C10_next_id_fresh:
  "(\<exists>n. next_id es = Inr n \<and> (\<forall>i \<in> set (present_ids es). i < n)) \<and>
   next_id (map (\<lambda>e. if id_field e = None then e\<lparr>id_field := Some 0\<rparr> else e) es) = next_id es \<and>
   (es \<noteq> [] \<and> (\<forall>e \<in> set es. id_field e = None) \<longrightarrow> next_id es = Inr 1) \<and>
   (next_id es = Inr m \<and> distinct (present_ids es) \<longrightarrow>
      distinct (present_ids (es @ [e\<lparr>id_field := Some m\<rparr>]))) \<and>
   (req_method r = POST \<and> form_get r ''title'' \<noteq> None \<and>
    distinct (present_ids (load_entries s)) \<longrightarrow>
      (\<exists>e' n. new_entry ev r s = (Redirect ''index'', Stored (load_entries s @ [e'])) \<and>
         id_field e' = Some n \<and> next_id (load_entries s) = Inr n \<and>
         distinct (present_ids (load_entries s @ [e']))))"
proof (intro conjI impI)
  show "\<exists>n. next_id es = Inr n \<and> (\<forall>i \<in> set (present_ids es). i < n)"
    using next_id_total next_id_above by blast
next
  show "next_id (map (\<lambda>e. if id_field e = None then e\<lparr>id_field := Some 0\<rparr> else e) es)
        = next_id es"
    by (rule next_id_missing_as_zero)
next
  assume "es \<noteq> [] \<and> (\<forall>e \<in> set es. id_field e = None)"
  then show "next_id es = Inr 1" using next_id_no_ids by blast
next
  assume "next_id es = Inr m \<and> distinct (present_ids es)"
  then show "distinct (present_ids (es @ [e\<lparr>id_field := Some m\<rparr>]))"
    using next_id_keeps_distinct [of es m "e\<lparr>id_field := Some m\<rparr>"] by simp
next
  assume a: "req_method r = POST \<and> form_get r ''title'' \<noteq> None \<and>
    distinct (present_ids (load_entries s))"
  then obtain t where t: "form_get r ''title'' = Some t" by auto
  from a t obtain e' n where
    e': "new_entry ev r s = (Redirect ''index'', Stored (load_entries s @ [e']))"
      "id_field e' = Some n" "next_id (load_entries s) = Inr n"
    using new_entry_post [of r t ev s] by blast
  from e'(3) a e'(2) have "distinct (present_ids (load_entries s @ [e']))"
    using next_id_keeps_distinct by blast
  with e' show "\<exists>e' n. new_entry ev r s = (Redirect ''index'', Stored (load_entries s @ [e'])) \<and>
         id_field e' = Some n \<and> next_id (load_entries s) = Inr n \<and>
         distinct (present_ids (load_entries s @ [e']))"
    by blast
qed

theorem C10_witness:
  "no_id_twice \<noteq> [] \<and> list_all (\<lambda>e. id_field e = None) no_id_twice \<and>
   next_id no_id_twice = Inr 1 \<and>
   next_id id3_id7 = Inr 8 \<and> distinct (present_ids id3_id7) \<and>
   distinct (present_ids (id3_id7 @ [blank\<lparr>id_field := Some 8\<rparr>])) \<and>
   req_method post_titled = POST \<and> form_get post_titled ''title'' \<noteq> None \<and>
   distinct (present_ids (load_entries (Stored id3_id7))) \<and>
   present_ids (load_entries (snd (new_entry example_env post_titled (Stored id3_id7)))) = [3, 7, 8]"
proof -
  have n: "next_id id3_id7 = Inr 8"
    by (simp add: next_id_def id3_id7_def blank_def dict_get_def)
  have l: "present_ids (load_entries (Stored id3_id7)) = [3, 7]"
    by (simp add: load_entries_def id3_id7_def blank_def present_ids_def map_filter_simps
        backfill_def)
  have n': "next_id (load_entries (Stored id3_id7)) = Inr 8"
    by (simp add: next_id_def load_entries_def id3_id7_def blank_def dict_get_def backfill_def)
  have p: "req_method post_titled = POST \<and> form_get post_titled ''title'' \<noteq> None"
    by (simp add: post_titled_def form_get_def)
  have h1: "no_id_twice \<noteq> [] \<and> (\<forall>e \<in> set no_id_twice. id_field e = None)"
    by (simp add: no_id_twice_def blank_def)
  note t1 = C10_next_id_fresh [of no_id_twice 8 blank post_titled "Stored id3_id7" example_env]
  note t2 = C10_next_id_fresh [of id3_id7 8 blank post_titled "Stored id3_id7" example_env]
  from t1 h1 have c1: "next_id no_id_twice = Inr 1" by blast
  from t2 n have c2: "distinct (present_ids id3_id7) \<longrightarrow>
      distinct (present_ids (id3_id7 @ [blank\<lparr>id_field := Some 8\<rparr>]))" by blast
  have d: "distinct (present_ids id3_id7)"
    by (simp add: id3_id7_def blank_def present_ids_def map_filter_simps)
  from t2 p l obtain e' k where
    e': "new_entry example_env post_titled (Stored id3_id7)
           = (Redirect ''index'', Stored (load_entries (Stored id3_id7) @ [e']))"
      "id_field e' = Some k" "next_id (load_entries (Stored id3_id7)) = Inr k"
    by auto
  from e'(3) n' have k: "k = 8" by simp
  from e'(1) have "present_ids (load_entries (snd (new_entry example_env post_titled (Stored id3_id7))))
      = present_ids (load_entries (Stored id3_id7) @ [e'])"
    by (simp only: snd_conv present_ids_load)
  also from l e'(2) k have "\<dots> = [3, 7, 8]"
    by (simp add: present_ids_append present_ids_single)
  finally have
    "present_ids (load_entries (snd (new_entry example_env post_titled (Stored id3_id7)))) = [3, 7, 8]" .
  with c1 c2 d n p l h1 show ?thesis
    by (simp add: list_all_iff)
qed

subsection \<open>Dream selection\<close>

lemma foldl_dream_step:
  "foldl dream_step acc es =
     acc @ filter (\<lambda>e. lower_category e \<in> set [''goal'', ''goals'', ''dreams'', ''dreamboard''] \<or>
                       set dream_keywords \<inter> set (lower_tags e) \<noteq> {}) es"
  by (induction es arbitrary: acc)
    (simp_all add: dream_step_def lower_category_def lower_tags_def Let_def)

lemma foldl_dreamboard_step:
  "foldl dreamboard_step acc es =
     acc @ filter (\<lambda>e. lower_category e \<in> set [''goal'', ''goals''] \<or>
                       set dreamboard_keywords \<inter> set (lower_tags e) \<noteq> {}) es"
  by (induction es arbitrary: acc)
    (simp_all add: dreamboard_step_def lower_category_def lower_tags_def Let_def)

lemma set_sorted_reverse: "set (sorted_reverse f xs) = set xs"
  by (simp add: sorted_reverse_def)

lemma keywords_meet:
  "set ks \<inter> set (lower_tags e) \<noteq> {} \<longleftrightarrow> (\<exists>t \<in> set (dict_get (tags e) []). lower t \<in> set ks)"
  by (auto simp: lower_tags_def)

lemma compute_dream_entries_member:
  "e \<in> set (compute_dream_entries es) \<longleftrightarrow>
     e \<in> set es \<and>
     (lower_category e \<in> {''goal'', ''goals'', ''dreams'', ''dreamboard''} \<or>
      (\<exists>t \<in> set (dict_get (tags e) []).
         lower t \<in> {''dream'', ''dreams'', ''goal'', ''goals'', ''manifest'', ''manifestation''}))"
proof -
  have "set dream_keywords =
      {''dream'', ''dreams'', ''goal'', ''goals'', ''manifest'', ''manifestation''}"
    by (simp add: dream_keywords_def)
  then show ?thesis
    unfolding compute_dream_entries_def set_sorted_reverse foldl_dream_step keywords_meet
    by simp
qed

lemma dreamboard_select_member:
  "e \<in> set (dreamboard_select es) \<longleftrightarrow>
     e \<in> set es \<and>
     (lower_category e \<in> {''goal'', ''goals''} \<or>
      (\<exists>t \<in> set (dict_get (tags e) []).
         lower t \<in> {''dream'', ''goal'', ''goals'', ''manifest'', ''manifestation''}))"
proof -
  have "set dreamboard_keywords = {''dream'', ''goal'', ''goals'', ''manifest'', ''manifestation''}"
    by (simp add: dreamboard_keywords_def)
  then show ?thesis
    unfolding dreamboard_select_def foldl_dreamboard_step keywords_meet
    by simp
qed

lemma dream_defaults_backfill: "dream_defaults (backfill e) = backfill e"
  by (simp add: dream_defaults_def backfill_def setdefault_def split: option.splits)

lemma dreamboard_select_subset: "set (dreamboard_select es) \<subseteq> set es"
  by (auto simp: dreamboard_select_def foldl_dreamboard_step)

lemma dreamboard_unfiltered:
  "dreamboard None None s = sort_key dream_sort_key (dreamboard_select (load_entries s))"
proof -
  have "map dream_defaults (dreamboard_select (load_entries s)) = dreamboard_select (load_entries s)"
  proof (rule map_idI)
    fix e assume "e \<in> set (dreamboard_select (load_entries s))"
    then have "e \<in> set (load_entries s)" using dreamboard_select_subset by blast
    then obtain e0 where "e = backfill e0"
      by (cases s) (auto simp: load_entries_def)
    then show "dream_defaults e = e" by (simp add: dream_defaults_backfill)
  qed
  then show ?thesis by (simp add: dreamboard_def arg_or_none_def)
qed

text \<open>
  Claim C1, as stated, fails for the dreamboard view: its keyword set has five
  words, without \<open>dreams\<close>. An entry of category \<open>Art\<close> tagged \<open>Dreams\<close> meets the
  rule the claim gives for the dreamboard, and the dreamboard does not select it,
  from the list as from the store.
\<close>

theorem C1_counterexample:
  "claimed_dreamboard_rule plural_tag_entry \<and>
   plural_tag_entry \<notin> set (dreamboard_select [plural_tag_entry]) \<and>
   claimed_dreamboard_rule (backfill plural_tag_entry) \<and>
   dreamboard None None (Stored [plural_tag_entry]) = []"
  by code_simp

text \<open>
  Claim C1, amended. An entry is in the gallery's dream set iff it is an entry of
  the list and its lowercased category is \<open>goal\<close>, \<open>goals\<close>, \<open>dreams\<close> or \<open>dreamboard\<close>,
  or one of its lowercased tags is among \<open>dream\<close>, \<open>dreams\<close>, \<open>goal\<close>, \<open>goals\<close>,
  \<open>manifest\<close>, \<open>manifestation\<close>. The dreamboard selects an entry iff its lowercased
  category is \<open>goal\<close> or \<open>goals\<close>, or one of its lowercased tags is among the five
  words \<open>dream\<close>, \<open>goal\<close>, \<open>goals\<close>, \<open>manifest\<close>, \<open>manifestation\<close>; without filters
  the view shows exactly the selected entries of the loaded collection. So an entry
  whose category lowercases to \<open>dreams\<close> or \<open>dreamboard\<close> and that has no tag among
  the six words is in the gallery's dream set and not on the dreamboard.
\<close>

theorem C1_dream_membership:
  "(e \<in> set (compute_dream_entries es) \<longleftrightarrow>
      e \<in> set es \<and>
      (lower_category e \<in> {''goal'', ''goals'', ''dreams'', ''dreamboard''} \<or>
       (\<exists>t \<in> set (dict_get (tags e) []).
          lower t \<in> {''dream'', ''dreams'', ''goal'', ''goals'', ''manifest'', ''manifestation''}))) \<and>
   (e \<in> set (dreamboard_select es) \<longleftrightarrow>
      e \<in> set es \<and>
      (lower_category e \<in> {''goal'', ''goals''} \<or>
       (\<exists>t \<in> set (dict_get (tags e) []).
          lower t \<in> {''dream'', ''goal'', ''goals'', ''manifest'', ''manifestation''}))) \<and>
   set (dreamboard None None s) = set (dreamboard_select (load_entries s)) \<and>
   (e \<in> set es \<and> lower_category e \<in> {''dreams'', ''dreamboard''} \<and>
    (\<forall>t \<in> set (dict_get (tags e) []).
       lower t \<notin> {''dream'', ''dreams'', ''goal'', ''goals'', ''manifest'', ''manifestation''})
    \<longrightarrow> e \<in> set (compute_dream_entries es) \<and> e \<notin> set (dreamboard_select es))"
proof (intro conjI impI)
  show "e \<in> set (compute_dream_entries es) \<longleftrightarrow>
      e \<in> set es \<and>
      (lower_category e \<in> {''goal'', ''goals'', ''dreams'', ''dreamboard''} \<or>
       (\<exists>t \<in> set (dict_get (tags e) []).
          lower t \<in> {''dream'', ''dreams'', ''goal'', ''goals'', ''manifest'', ''manifestation''}))"
    by (rule compute_dream_entries_member)
next
  show "e \<in> set (dreamboard_select es) \<longleftrightarrow>
      e \<in> set es \<and>
      (lower_category e \<in> {''goal'', ''goals''} \<or>
       (\<exists>t \<in> set (dict_get (tags e) []).
          lower t \<in> {''dream'', ''goal'', ''goals'', ''manifest'', ''manifestation''}))"
    by (rule dreamboard_select_member)
next
  show "set (dreamboard None None s) = set (dreamboard_select (load_entries s))"
    by (simp add: dreamboard_unfiltered)
next
  assume a: "e \<in> set es \<and> lower_category e \<in> {''dreams'', ''dreamboard''} \<and>
    (\<forall>t \<in> set (dict_get (tags e) []).
       lower t \<notin> {''dream'', ''dreams'', ''goal'', ''goals'', ''manifest'', ''manifestation''})"
  then show "e \<in> set (compute_dream_entries es)"
    unfolding compute_dream_entries_member by blast
next
  assume a: "e \<in> set es \<and> lower_category e \<in> {''dreams'', ''dreamboard''} \<and>
    (\<forall>t \<in> set (dict_get (tags e) []).
       lower t \<notin> {''dream'', ''dreams'', ''goal'', ''goals'', ''manifest'', ''manifestation''})"
  then have "lower_category e \<notin> {''goal'', ''goals''}" by auto
  with a show "e \<notin> set (dreamboard_select es)"
    unfolding dreamboard_select_member by blast
qed

theorem C1_witness:
  "dreams_category_entry \<in> set [dreams_category_entry] \<and>
   lower_category dreams_category_entry = ''dreams'' \<and>
   map lower (dict_get (tags dreams_category_entry) []) = [''sea''] \<and>
   dreams_category_entry \<in> set (compute_dream_entries [dreams_category_entry]) \<and>
   dreams_category_entry \<notin> set (dreamboard_select [dreams_category_entry])"
proof -
  have c: "lower_category dreams_category_entry = ''dreams''" by code_simp
  have t: "map lower (dict_get (tags dreams_category_entry) []) = [''sea'']" by code_simp
  have d: "dict_get (tags dreams_category_entry) [] = [''sea'']" by code_simp
  from t d have l: "lower ''sea'' = ''sea''" by simp
  have "\<forall>t \<in> set (dict_get (tags dreams_category_entry) []).
       lower t \<notin> {''dream'', ''dreams'', ''goal'', ''goals'', ''manifest'', ''manifestation''}"
    unfolding d using l by simp
  with c C1_dream_membership [of dreams_category_entry "[dreams_category_entry]"]
  have "dreams_category_entry \<in> set (compute_dream_entries [dreams_category_entry]) \<and>
     dreams_category_entry \<notin> set (dreamboard_select [dreams_category_entry])"
    by simp
  with c t show ?thesis by simp
qed

subsection \<open>Milestones\<close>











subsection \<open>Detail, edit and delete\<close>











lemma length_update_first: "length (update_first P f xs) = length xs"
  by (induction xs) simp_all

lemma map_update_first:
  "(\<And>x. g (f x) = g x) \<Longrightarrow> map g (update_first P f xs) = map g xs"
  by (induction xs) simp_all

lemma update_first_nth_other:
  "j < length xs \<Longrightarrow> \<not> P (xs ! j) \<Longrightarrow> update_first P f xs ! j = xs ! j"
proof (induction xs arbitrary: j)
  case Nil
  then show ?case by simp
next
  case (Cons x xs)
  then show ?case by (cases j) auto
qed

lemma update_first_one_place:
  "\<exists>k. \<forall>j < length xs. j \<noteq> k \<longrightarrow> update_first P f xs ! j = xs ! j"
proof (induction xs)
  case Nil
  show ?case by simp
next
  case (Cons x xs)
  show ?case
  proof (cases "P x")
    case True
    then have "\<forall>j < length (x # xs). j \<noteq> 0 \<longrightarrow> update_first P f (x # xs) ! j = (x # xs) ! j"
      by (auto simp: nth_Cons')
    then show ?thesis by blast
  next
    case False
    from Cons obtain k where k: "\<forall>j < length xs. j \<noteq> k \<longrightarrow> update_first P f xs ! j = xs ! j"
      by blast
    with False
    have "\<forall>j < length (x # xs). j \<noteq> Suc k \<longrightarrow> update_first P f (x # xs) ! j = (x # xs) ! j"
      by (auto simp: nth_Cons')
    then show ?thesis by blast
  qed
qed

lemma edit_keeps_id: "id_field (edit_update ev r t (edit_defaults e)) = id_field e"
  by (simp add: edit_update_def edit_defaults_def Let_def)

lemma edit_keeps_created_at: "created_at (edit_update ev r t (edit_defaults e)) = created_at e"
  by (simp add: edit_update_def edit_defaults_def Let_def)

lemma backfill_edit_update: "backfill (edit_update ev r t e) = edit_update ev r t e"
  by (simp add: edit_update_def backfill_def setdefault_def Let_def)

lemma backfill_update_first:
  assumes "\<forall>x \<in> set xs. backfill x = x" and "\<And>x. backfill (f x) = f x"
  shows "map backfill (update_first P f xs) = update_first P f xs"
  using assms(1)
proof (induction xs)
  case Nil
  show ?case by simp
next
  case (Cons x xs)
  then have "map backfill xs = xs" by (intro map_idI) simp
  with Cons show ?case by (simp add: assms(2))
qed

lemma loaded_backfilled: "x \<in> set (load_entries s) \<Longrightarrow> backfill x = x"
  by (cases s) (auto simp: load_entries_def backfill_idem)

lemma edit_entry_cases:
  "edit_entry ev i r s = (resp, s') \<Longrightarrow>
     s' = s \<or>
     (\<exists>t. s' = Stored (update_first (\<lambda>e. id_field e = Some i)
                        (\<lambda>e. edit_update ev r t (edit_defaults e)) (load_entries s)))"
  unfolding edit_entry_def Let_def save_entries_def
  by (cases "find (\<lambda>e. id_field e = Some i) (load_entries s)";
      cases "req_method r = POST"; cases "form_get r ''title''") auto

lemma load_after_edit:
  "load_entries (Stored (update_first P (\<lambda>e. edit_update ev r t (edit_defaults e)) (load_entries s)))
     = update_first P (\<lambda>e. edit_update ev r t (edit_defaults e)) (load_entries s)"
proof -
  have "map backfill (update_first P (\<lambda>e. edit_update ev r t (edit_defaults e)) (load_entries s))
     = update_first P (\<lambda>e. edit_update ev r t (edit_defaults e)) (load_entries s)"
    by (rule backfill_update_first) (simp_all add: loaded_backfilled backfill_edit_update)
  then show ?thesis by (simp add: load_entries_def)
qed

text \<open>
  Claim C9. Whatever the edit handler answers, the collection read back from the
  store afterwards has the ids and the creation times of the loaded collection,
  position by position; every entry whose id is not the edited one is the same entry
  as before, and at most one position differs at all.
\<close>

theorem C9_edit_frame:
  "edit_entry ev i r s = (resp, s') \<longrightarrow>
     length (load_entries s') = length (load_entries s) \<and>
     map id_field (load_entries s') = map id_field (load_entries s) \<and>
     map created_at (load_entries s') = map created_at (load_entries s) \<and>
     (\<forall>j < length (load_entries s).
        id_field (load_entries s ! j) \<noteq> Some i \<longrightarrow> load_entries s' ! j = load_entries s ! j) \<and>
     (\<exists>k. \<forall>j < length (load_entries s).
        j \<noteq> k \<longrightarrow> load_entries s' ! j = load_entries s ! j)"
proof
  assume "edit_entry ev i r s = (resp, s')"
  then consider "s' = s"
    | t where "s' = Stored (update_first (\<lambda>e. id_field e = Some i)
                        (\<lambda>e. edit_update ev r t (edit_defaults e)) (load_entries s))"
    using edit_entry_cases by blast
  then show "length (load_entries s') = length (load_entries s) \<and>
     map id_field (load_entries s') = map id_field (load_entries s) \<and>
     map created_at (load_entries s') = map created_at (load_entries s) \<and>
     (\<forall>j < length (load_entries s).
        id_field (load_entries s ! j) \<noteq> Some i \<longrightarrow> load_entries s' ! j = load_entries s ! j) \<and>
     (\<exists>k. \<forall>j < length (load_entries s).
        j \<noteq> k \<longrightarrow> load_entries s' ! j = load_entries s ! j)"
  proof cases
    case 1
    then show ?thesis by simp
  next
    case 2
    let ?f = "\<lambda>e. edit_update ev r t (edit_defaults e)"
    let ?P = "\<lambda>e. id_field e = Some i"
    from 2 have l: "load_entries s' = update_first ?P ?f (load_entries s)"
      by (simp only: load_after_edit)
    have a: "length (update_first ?P ?f (load_entries s)) = length (load_entries s)"
      by (rule length_update_first)
    have b: "map id_field (update_first ?P ?f (load_entries s)) = map id_field (load_entries s)"
      by (rule map_update_first) (rule edit_keeps_id)
    have c: "map created_at (update_first ?P ?f (load_entries s)) = map created_at (load_entries s)"
      by (rule map_update_first) (rule edit_keeps_created_at)
    have d: "\<forall>j < length (load_entries s). id_field (load_entries s ! j) \<noteq> Some i \<longrightarrow>
        update_first ?P ?f (load_entries s) ! j = load_entries s ! j"
      by (simp add: update_first_nth_other)
    have e: "\<exists>k. \<forall>j < length (load_entries s).
        j \<noteq> k \<longrightarrow> update_first ?P ?f (load_entries s) ! j = load_entries s ! j"
      by (rule update_first_one_place)
    from a b c d e show ?thesis unfolding l by blast
  qed
qed

lemma edit_example:
  "edit_entry example_env 3 post_titled (Stored id3_id7) =
     (Redirect ''entry_detail'',
      Stored [edit_update example_env post_titled ''Sea'' (edit_defaults (backfill (id3_id7 ! 0))),
              backfill (id3_id7 ! 1)])"
  by (simp add: edit_entry_def load_entries_def id3_id7_def blank_def backfill_def
      post_titled_def form_get_def save_entries_def)

theorem C9_witness:
  "edit_entry example_env 3 post_titled (Stored id3_id7) =
     (Redirect ''entry_detail'', snd (edit_entry example_env 3 post_titled (Stored id3_id7))) \<and>
   map id_field (load_entries (snd (edit_entry example_env 3 post_titled (Stored id3_id7))))
     = [Some 3, Some 7] \<and>
   map title (load_entries (snd (edit_entry example_env 3 post_titled (Stored id3_id7))))
     = [Some ''Sea'', None] \<and>
   (1::nat) < length (load_entries (Stored id3_id7)) \<and>
   id_field (load_entries (Stored id3_id7) ! 1) \<noteq> Some 3 \<and>
   load_entries (snd (edit_entry example_env 3 post_titled (Stored id3_id7))) ! 1
     = load_entries (Stored id3_id7) ! 1"
proof -
  let ?s' = "snd (edit_entry example_env 3 post_titled (Stored id3_id7))"
  have h: "edit_entry example_env 3 post_titled (Stored id3_id7) = (Redirect ''entry_detail'', ?s')"
    by (simp add: edit_example)
  have ids: "map id_field (load_entries (Stored id3_id7)) = [Some 3, Some 7]"
    by (simp add: load_entries_def id3_id7_def blank_def backfill_def)
  have len: "(1::nat) < length (load_entries (Stored id3_id7))"
    by (simp add: load_entries_def id3_id7_def)
  have other: "id_field (load_entries (Stored id3_id7) ! 1) \<noteq> Some 3"
    by (simp add: load_entries_def id3_id7_def blank_def backfill_def)
  have titles: "map title (load_entries ?s') = [Some ''Sea'', None]"
    by (simp only: edit_example snd_conv)
      (simp add: load_entries_def id3_id7_def blank_def backfill_def
        edit_update_def edit_defaults_def)
  note t = C9_edit_frame [of example_env 3 post_titled "Stored id3_id7" "Redirect ''entry_detail''" ?s']
  from t h ids have "map id_field (load_entries ?s') = [Some 3, Some 7]" by simp
  moreover from t h len other
  have "load_entries ?s' ! 1 = load_entries (Stored id3_id7) ! 1" by blast
  ultimately show ?thesis using h len other titles by blast
qed

subsection \<open>Timeline\<close>












































end
